theory Spec2Isabelle
  imports Complex_Main
begin

section \<open>Text, cells and data frames\<close>

text \<open>
  Python strings are sequences of Unicode code points; the column labels and messages of
  \<^verbatim>\<open>app.py\<close> are mostly Chinese, so a string is a list of code points here.
\<close>

type_synonym ustring = "nat list"

definition ascii :: "string \<Rightarrow> ustring" where
  "ascii s = map of_char s"

text \<open>A cell of the CSV after parsing: a number, a text, or a missing value.\<close>

datatype cell = Num rat | Str ustring | NaN

record dataframe =
  columns :: "ustring list"
  rows :: "cell list list"

text \<open>The exception classes the script distinguishes, each with the text of \<^verbatim>\<open>str(e)\<close>.\<close>

datatype exn =
    UnicodeDecodeError ustring
  | FileNotFoundError ustring
  | KeyError ustring
  | IndexError ustring
  | OtherException ustring

datatype 'a attempt = Returns 'a | Raises exn

text \<open>An f-string is a sequence of literal pieces and interpolated cell values.\<close>

datatype frag = Lit ustring | Val cell

datatype st_event =
    StError ustring
  | StSuccess "frag list"
  | StMarkdown "frag list"

section \<open>Dataset loader: \<^verbatim>\<open>load_data\<close>\<close>

datatype encoding = UTF8 | GBK | UTF16 | UTF8_SIG

definition encodings :: "encoding list" where
  "encodings = [UTF8, GBK, UTF16, UTF8_SIG]"


text \<open>
  \<^verbatim>\<open>str.strip()\<close> without argument removes the code points for which
  \<^verbatim>\<open>str.isspace()\<close> holds.
\<close>

definition is_space :: "nat \<Rightarrow> bool" where
  "is_space c =
     ((9 \<le> c \<and> c \<le> 13) \<or> (28 \<le> c \<and> c \<le> 32) \<or> c = 133 \<or> c = 160 \<or> c = 5760
      \<or> (8192 \<le> c \<and> c \<le> 8202) \<or> c = 8232 \<or> c = 8233 \<or> c = 8239 \<or> c = 8287
      \<or> c = 12288)"

definition strip :: "ustring \<Rightarrow> ustring" where
  "strip s = rev (dropWhile is_space (rev (dropWhile is_space s)))"

text \<open>\<^verbatim>\<open>s.replace(c, '')\<close> for a one-character pattern \<open>c\<close>.\<close>

definition remove_char :: "nat \<Rightarrow> ustring \<Rightarrow> ustring" where
  "remove_char c s = filter (\<lambda>x. x \<noteq> c) s"

text \<open>
  Line 18:
  \<^verbatim>\<open>df.columns.str.strip().str.replace(' ', '').str.replace('(', '').str.replace(')', '')\<close>
\<close>

definition normalize_name :: "ustring \<Rightarrow> ustring" where
  "normalize_name s = remove_char 41 (remove_char 40 (remove_char 32 (strip s)))"

definition normalize_columns :: "dataframe \<Rightarrow> dataframe" where
  "normalize_columns df = df\<lparr>columns := map normalize_name (columns df)\<rparr>"

text \<open>
  The text of line 23, as code points: "cannot load the data file, please check: 1. whether
  the file exists 2. the encoding of the file", on three lines.
\<close>

definition load_error_text :: ustring where
  "load_error_text =
     [0x65E0, 0x6CD5, 0x52A0, 0x8F7D, 0x6570, 0x636E, 0x6587, 0x4EF6, 0xFF0C, 0x8BF7, 0x68C0,
      0x67E5, 0xFF1A, 0x0A, 0x31, 0x2E, 0x20, 0x6587, 0x4EF6, 0x662F, 0x5426, 0x5B58, 0x5728,
      0x0A, 0x32, 0x2E, 0x20, 0x6587, 0x4EF6, 0x7F16, 0x7801, 0x683C, 0x5F0F]"

datatype load_result =
    Loaded dataframe
  | LoadStopped "st_event list"
  | LoadRaised exn

text \<open>The \<^verbatim>\<open>except (UnicodeDecodeError, FileNotFoundError)\<close> clause.\<close>

fun caught_by_loader :: "exn \<Rightarrow> bool" where
  "caught_by_loader (UnicodeDecodeError _) = True"
| "caught_by_loader (FileNotFoundError _) = True"
| "caught_by_loader _ = False"

text \<open>
  The loop of \<^verbatim>\<open>load_data\<close> over the encodings still to try. The parameter \<open>rd\<close> is
  \<^verbatim>\<open>pd.read_csv('crop_data.csv', encoding=...)\<close>. The first component of the result
  lists the encodings that were passed to \<open>rd\<close>, in order. Falling out of the loop runs
  \<^verbatim>\<open>st.error(...)\<close> and \<^verbatim>\<open>st.stop()\<close>.
\<close>

fun load_loop :: "(encoding \<Rightarrow> dataframe attempt) \<Rightarrow> encoding list \<Rightarrow> encoding list \<times> load_result" where
  "load_loop rd [] = ([], LoadStopped [StError load_error_text])"
| "load_loop rd (e # es) =
     (case rd e of
        Returns df \<Rightarrow> ([e], Loaded (normalize_columns df))
      | Raises x \<Rightarrow>
          if caught_by_loader x
          then (case load_loop rd es of (tried, res) \<Rightarrow> (e # tried, res))
          else ([e], LoadRaised x))"

definition load_data :: "(encoding \<Rightarrow> dataframe attempt) \<Rightarrow> encoding list \<times> load_result" where
  "load_data rd = load_loop rd encodings"

text \<open>
  \<^verbatim>\<open>pd.read_csv\<close> on a file that may be absent: an absent file raises
  \<^verbatim>\<open>FileNotFoundError\<close> whatever the encoding; a present file is handed to the
  parser \<open>parse\<close>.
\<close>

definition pd_read_csv ::
  "(encoding \<Rightarrow> 'bytes \<Rightarrow> dataframe attempt) \<Rightarrow> 'bytes option \<Rightarrow> encoding \<Rightarrow> dataframe attempt" where
  "pd_read_csv parse file enc =
     (case file of
        None \<Rightarrow> Raises (FileNotFoundError
                  (ascii ''[Errno 2] No such file or directory: '' @ [39] @ ascii ''crop_data.csv'' @ [39]))
      | Some bytes \<Rightarrow> parse enc bytes)"


text \<open>
  Lines 64 to 69, the caller of \<^verbatim>\<open>load_data\<close>: an exception that leaves the loader
  is caught by \<^verbatim>\<open>except Exception\<close>, shown and followed by \<^verbatim>\<open>st.stop()\<close>;
  the \<^verbatim>\<open>st.stop()\<close> inside the loader is not an \<^verbatim>\<open>Exception\<close> and ends the
  script directly.
\<close>

fun str_exn :: "exn \<Rightarrow> ustring" where
  "str_exn (UnicodeDecodeError m) = m"
| "str_exn (FileNotFoundError m) = m"
| "str_exn (KeyError k) = [39] @ k @ [39]"
| "str_exn (IndexError m) = m"
| "str_exn (OtherException m) = m"

definition load_failed_prefix :: ustring where
  "load_failed_prefix = [0x6570, 0x636E, 0x52A0, 0x8F7D, 0x5931, 0x8D25, 0xFF1A]"

definition load_ok_text :: ustring where
  "load_ok_text = [0x6570, 0x636E, 0x52A0, 0x8F7D, 0x6210, 0x529F, 0xFF01]"

datatype startup = Ready dataframe "st_event list" | Stopped "st_event list"

definition load_section :: "(encoding \<Rightarrow> dataframe attempt) \<Rightarrow> startup" where
  "load_section rd =
     (case snd (load_data rd) of
        Loaded df \<Rightarrow> Ready df [StSuccess [Lit load_ok_text]]
      | LoadStopped evs \<Rightarrow> Stopped evs
      | LoadRaised e \<Rightarrow> Stopped [StError (load_failed_prefix @ str_exn e)])"

text \<open>Whether a text occurs inside another one (Python's \<^verbatim>\<open>in\<close> on strings).\<close>

fun contains :: "ustring \<Rightarrow> ustring \<Rightarrow> bool" where
  "contains pat [] = (pat = [])"
| "contains pat (c # cs) = (take (length pat) (c # cs) = pat \<or> contains pat cs)"

section \<open>Column resolution and training: \<^verbatim>\<open>train_model\<close>\<close>

datatype role = Month | Temp | Rain | Ph | Crop

text \<open>The dictionary \<^verbatim>\<open>col_mapping\<close>, in insertion order.\<close>

definition col_mapping :: "(role \<times> ustring list) list" where
  "col_mapping =
     [(Month, [[0x79CD, 0x690D, 0x6708], [0x6708, 0x4EFD], ascii ''month'']),
      (Temp, [[0x6E29, 0x5EA6, 0x2103], [0x6E29, 0x5EA6], ascii ''temp'']),
      (Rain, [[0x964D, 0x96E8, 0x6D, 0x6D], [0x964D, 0x96E8], ascii ''rain'']),
      (Ph, [[0x571F, 0x58E4, 0x70, 0x48], [0x70, 0x48, 0x503C], ascii ''ph'']),
      (Crop, [[0x4F5C, 0x7269], ascii ''crop''])]"

fun role_key :: "role \<Rightarrow> ustring" where
  "role_key Month = ascii ''month''"
| "role_key Temp = ascii ''temp''"
| "role_key Rain = ascii ''rain''"
| "role_key Ph = ascii ''ph''"
| "role_key Crop = ascii ''crop''"

text \<open>
  The inner loop \<^verbatim>\<open>for name in possible_names: if name in df.columns: ...; break\<close>;
  \<open>None\<close> is its \<^verbatim>\<open>else\<close> branch.
\<close>

fun first_present :: "ustring list \<Rightarrow> ustring list \<Rightarrow> ustring option" where
  "first_present cols [] = None"
| "first_present cols (name # names) =
     (if name \<in> set cols then Some name else first_present cols names)"

text \<open>\<^verbatim>\<open>repr\<close> of a list of plain strings, as the f-string of line 46 prints it.\<close>

fun join :: "ustring \<Rightarrow> ustring list \<Rightarrow> ustring" where
  "join sep [] = []"
| "join sep [x] = x"
| "join sep (x # y # ys) = x @ sep @ join sep (y # ys)"

definition repr_list :: "ustring list \<Rightarrow> ustring" where
  "repr_list xs = [91] @ join [44, 32] (map (\<lambda>x. [39] @ x @ [39]) xs) @ [93]"

definition missing_column_text :: "ustring list \<Rightarrow> ustring" where
  "missing_column_text possible_names =
     [0x627E, 0x4E0D, 0x5230, 0x5339, 0x914D, 0x7684, 0x5217, 0xFF1A] @ repr_list possible_names"

text \<open>
  The outer loop over \<^verbatim>\<open>col_mapping.items()\<close>, filling \<^verbatim>\<open>selected_cols\<close>.
  \<open>Inl\<close> is \<^verbatim>\<open>st.error(...)\<close> followed by \<^verbatim>\<open>st.stop()\<close>.
\<close>

fun select_loop ::
  "ustring list \<Rightarrow> (role \<times> ustring list) list \<Rightarrow> (role \<rightharpoonup> ustring)
     \<Rightarrow> st_event list + (role \<rightharpoonup> ustring)" where
  "select_loop cols [] selected_cols = Inr selected_cols"
| "select_loop cols ((col_type, possible_names) # rest) selected_cols =
     (case first_present cols possible_names of
        Some name \<Rightarrow> select_loop cols rest (selected_cols(col_type \<mapsto> name))
      | None \<Rightarrow> Inl [StError (missing_column_text possible_names)])"

text \<open>
  Selecting columns by label. \<^verbatim>\<open>df[[a, b, ...]]\<close> raises \<^verbatim>\<open>KeyError\<close> for an
  absent label and returns, for each requested label in turn, every column that carries
  it. A row shorter than the header is padded with missing values by the parser.
\<close>

definition positions :: "ustring \<Rightarrow> ustring list \<Rightarrow> nat list" where
  "positions name cols = filter (\<lambda>i. cols ! i = name) [0..<length cols]"

definition cell_at :: "cell list \<Rightarrow> nat \<Rightarrow> cell" where
  "cell_at r i = (if i < length r then r ! i else NaN)"

definition select_columns :: "dataframe \<Rightarrow> ustring list \<Rightarrow> dataframe attempt" where
  "select_columns df names =
     (case find (\<lambda>n. n \<notin> set (columns df)) names of
        Some n \<Rightarrow> Raises (KeyError n)
      | None \<Rightarrow>
          (let idx = concat (map (\<lambda>n. positions n (columns df)) names)
           in Returns \<lparr>columns = map (\<lambda>i. columns df ! i) idx,
                        rows = map (\<lambda>r. map (cell_at r) idx) (rows df)\<rparr>))"

text \<open>
  The classifier is a collaborator of the script, not part of it; it is a parameter here.
  \<^verbatim>\<open>DecisionTreeClassifier(max_depth=3, random_state=42)\<close> fixes the two
  hyperparameters; a classifier built without \<^verbatim>\<open>random_state\<close> draws from the
  process-wide generator instead, which is the \<open>Ambient\<close> source.
\<close>

record hyper =
  max_depth :: "nat option"
  random_state :: "int option"

datatype rng = Seeded int | Ambient nat

record 'm classifier =
  clf_fit :: "rng \<Rightarrow> nat option \<Rightarrow> dataframe \<Rightarrow> dataframe \<Rightarrow> 'm attempt"
  clf_predict :: "'m \<Rightarrow> dataframe \<Rightarrow> cell list attempt"

text \<open>The state outside the script: the file \<^verbatim>\<open>model.pkl\<close> and the global generator.\<close>

record 'm env =
  model_pkl :: "'m option"
  np_random :: nat

definition rng_of :: "hyper \<Rightarrow> 'm env \<Rightarrow> rng" where
  "rng_of h env = (case random_state h of Some s \<Rightarrow> Seeded s | None \<Rightarrow> Ambient (np_random env))"

definition tree_hyper :: hyper where
  "tree_hyper = \<lparr>max_depth = Some 3, random_state = Some 42\<rparr>"

definition lookup_key :: "(role \<rightharpoonup> ustring) \<Rightarrow> role \<Rightarrow> ustring attempt" where
  "lookup_key selected_cols k =
     (case selected_cols k of None \<Rightarrow> Raises (KeyError (role_key k)) | Some v \<Rightarrow> Returns v)"

fun and_then :: "'a attempt \<Rightarrow> ('a \<Rightarrow> 'b attempt) \<Rightarrow> 'b attempt" where
  "and_then (Returns x) f = f x"
| "and_then (Raises e) f = Raises e"

text \<open>Lines 49 and 50: the feature matrix and the target.\<close>

definition feature_frame :: "dataframe \<Rightarrow> (role \<rightharpoonup> ustring) \<Rightarrow> dataframe attempt" where
  "feature_frame df selected_cols =
     and_then (lookup_key selected_cols Month) (\<lambda>m.
     and_then (lookup_key selected_cols Temp) (\<lambda>t.
     and_then (lookup_key selected_cols Rain) (\<lambda>r.
     and_then (lookup_key selected_cols Ph) (\<lambda>p.
       select_columns df [m, t, r, p]))))"

definition target_frame :: "dataframe \<Rightarrow> (role \<rightharpoonup> ustring) \<Rightarrow> dataframe attempt" where
  "target_frame df selected_cols =
     and_then (lookup_key selected_cols Crop) (\<lambda>c. select_columns df [c])"

datatype 'm train_result =
    Trained 'm "'m env"
  | TrainStopped "st_event list"
  | TrainRaised exn

definition train_model :: "'m classifier \<Rightarrow> dataframe \<Rightarrow> 'm env \<Rightarrow> 'm train_result" where
  "train_model clf df env =
     (case select_loop (columns df) col_mapping Map.empty of
        Inl evs \<Rightarrow> TrainStopped evs
      | Inr selected_cols \<Rightarrow>
          (case and_then (feature_frame df selected_cols) (\<lambda>X.
                and_then (target_frame df selected_cols) (\<lambda>y.
                  clf_fit clf (rng_of tree_hyper env) (max_depth tree_hyper) X y)) of
             Raises e \<Rightarrow> TrainRaised e
           | Returns model \<Rightarrow> Trained model (env\<lparr>model_pkl := Some model\<rparr>)))"


section \<open>The recommendation request: lines 71 to 116\<close>


text \<open>The column labels written out in line 90 and used again in lines 97 to 112.\<close>

definition label_month :: ustring where
  "label_month = [0x79CD, 0x690D, 0x6708]"
definition label_temp :: ustring where
  "label_temp = [0x6E29, 0x5EA6, 0x2103]"
definition label_rain :: ustring where
  "label_rain = [0x964D, 0x96E8, 0x6D, 0x6D]"
definition label_ph :: ustring where
  "label_ph = [0x571F, 0x58E4, 0x70, 0x48]"
definition label_crop :: ustring where
  "label_crop = [0x4F5C, 0x7269]"
definition label_issues :: ustring where
  "label_issues = [0x5E38, 0x89C1, 0x95EE, 0x9898]"
definition label_yield :: ustring where
  "label_yield = [0x4EA7, 0x91CF, 0x7B49, 0x7EA7]"

definition input_columns :: "ustring list" where
  "input_columns = [label_month, label_temp, label_rain, label_ph]"

definition input_data :: "int \<Rightarrow> int \<Rightarrow> int \<Rightarrow> rat \<Rightarrow> dataframe" where
  "input_data month temp rain ph =
     \<lparr>columns = input_columns,
      rows = [[Num (of_int month), Num (of_int temp), Num (of_int rain), Num ph]]\<rparr>"

text \<open>\<^verbatim>\<open>model.predict(input_data)[0]\<close>\<close>

definition predict_crop :: "'m classifier \<Rightarrow> 'm \<Rightarrow> dataframe \<Rightarrow> cell attempt" where
  "predict_crop clf model input =
     and_then (clf_predict clf model input) (\<lambda>out.
       case out of
         [] \<Rightarrow> Raises (IndexError (ascii ''index 0 is out of bounds for axis 0 with size 0''))
       | crop # _ \<Rightarrow> Returns crop)"

text \<open>
  Equality of a cell with the predicted label, as the comparison of line 97 computes it:
  a missing value equals nothing.
\<close>

definition cell_eq :: "cell \<Rightarrow> cell \<Rightarrow> bool" where
  "cell_eq a b = (a \<noteq> NaN \<and> a = b)"

text \<open>
  \<^verbatim>\<open>df[label]\<close> and \<^verbatim>\<open>row[label]\<close> for a label that occurs once among the
  columns; an absent label raises \<^verbatim>\<open>KeyError\<close>.
\<close>

definition get_series :: "dataframe \<Rightarrow> ustring \<Rightarrow> cell list attempt" where
  "get_series df name =
     (case positions name (columns df) of
        [] \<Rightarrow> Raises (KeyError name)
      | i # _ \<Rightarrow> Returns (map (\<lambda>r. cell_at r i) (rows df)))"

definition row_get :: "ustring list \<Rightarrow> cell list \<Rightarrow> ustring \<Rightarrow> cell attempt" where
  "row_get cols r name =
     (case positions name cols of
        [] \<Rightarrow> Raises (KeyError name)
      | i # _ \<Rightarrow> Returns (cell_at r i))"

text \<open>Line 97: \<^verbatim>\<open>df[df[label_crop] == crop].iloc[0]\<close>\<close>

definition crop_info_of :: "dataframe \<Rightarrow> cell \<Rightarrow> cell list attempt" where
  "crop_info_of df crop =
     and_then (get_series df label_crop) (\<lambda>labels.
       case map snd (filter (\<lambda>(l, r). cell_eq l crop) (zip labels (rows df))) of
         [] \<Rightarrow> Raises (IndexError (ascii ''single positional indexer is out-of-bounds''))
       | r # _ \<Rightarrow> Returns r)"

text \<open>The literal pieces of the f-strings of lines 94, 101 to 106, 109 to 113 and 116.\<close>

definition nl_indent :: ustring where
  "nl_indent = 0x0A # replicate 12 0x20"

definition recommend_prefix :: ustring where
  "recommend_prefix = [0x23, 0x23, 0x20, 0x63A8, 0x8350, 0x79CD, 0x690D, 0x3A, 0x20]"

definition predict_failed_prefix :: ustring where
  "predict_failed_prefix = [0x9884, 0x6D4B, 0x5931, 0x8D25, 0x3A, 0x20]"

definition planting_markdown :: "ustring list \<Rightarrow> cell list \<Rightarrow> frag list attempt" where
  "planting_markdown cols crop_info =
     and_then (row_get cols crop_info label_temp) (\<lambda>t.
     and_then (row_get cols crop_info label_rain) (\<lambda>w.
     and_then (row_get cols crop_info label_ph) (\<lambda>p.
       Returns
         [Lit (nl_indent @ [0x2A, 0x2A, 0x1F4CA, 0x20, 0x79CD, 0x690D, 0x4FE1, 0x606F, 0x3A, 0x2A, 0x2A]
               @ nl_indent @ [0x2D, 0x20, 0x9002, 0x5B9C, 0x6E29, 0x5EA6, 0x3A, 0x20]),
          Val t,
          Lit ([0x2103] @ nl_indent @ [0x2D, 0x20, 0x9700, 0x6C34, 0x91CF, 0x3A, 0x20]),
          Val w,
          Lit ([0x6D, 0x6D] @ nl_indent @ [0x2D, 0x20, 0x6700, 0x4F73, 0x70, 0x48, 0x3A, 0x20]),
          Val p,
          Lit nl_indent])))"

definition issues_markdown :: "ustring list \<Rightarrow> cell list \<Rightarrow> frag list attempt" where
  "issues_markdown cols crop_info =
     and_then (row_get cols crop_info label_issues) (\<lambda>q.
     and_then (row_get cols crop_info label_yield) (\<lambda>g.
       Returns
         [Lit (nl_indent @ [0x2A, 0x2A, 0x26A0, 0xFE0F, 0x20, 0x5E38, 0x89C1, 0x95EE, 0x9898, 0x3A, 0x2A, 0x2A]
               @ nl_indent @ [0x2D, 0x20]),
          Val q,
          Lit (nl_indent @ [0x2D, 0x20, 0x9884, 0x8BA1, 0x4EA7, 0x91CF, 0x3A, 0x20]),
          Val g,
          Lit nl_indent]))"

text \<open>
  The \<^verbatim>\<open>try\<close> block of lines 87 to 116. What was shown before an exception stays on
  the page; the handler adds one error message.
\<close>

definition failed :: "exn \<Rightarrow> st_event" where
  "failed e = StError (predict_failed_prefix @ str_exn e)"

definition prediction_block ::
  "'m classifier \<Rightarrow> 'm \<Rightarrow> dataframe \<Rightarrow> int \<Rightarrow> int \<Rightarrow> int \<Rightarrow> rat \<Rightarrow> st_event list" where
  "prediction_block clf model df month temp rain ph =
     (case predict_crop clf model (input_data month temp rain ph) of
        Raises e \<Rightarrow> [failed e]
      | Returns crop \<Rightarrow>
          StSuccess [Lit recommend_prefix, Val crop] #
          (case crop_info_of df crop of
             Raises e \<Rightarrow> [failed e]
           | Returns crop_info \<Rightarrow>
               (case planting_markdown (columns df) crop_info of
                  Raises e \<Rightarrow> [failed e]
                | Returns md1 \<Rightarrow>
                    StMarkdown md1 #
                    (case issues_markdown (columns df) crop_info of
                       Raises e \<Rightarrow> [failed e]
                     | Returns md2 \<Rightarrow> [StMarkdown md2]))))"

text \<open>
  Lines 80 to 85: the button handler first tries \<^verbatim>\<open>joblib.load('model.pkl')\<close> and
  trains only on \<^verbatim>\<open>FileNotFoundError\<close>. A model file that exists is taken to
  hold a model that loads. The result records how often \<^verbatim>\<open>train_model\<close> was
  called and how the run ended.
\<close>

definition joblib_load :: "'m env \<Rightarrow> 'm attempt" where
  "joblib_load env =
     (case model_pkl env of
        None \<Rightarrow> Raises (FileNotFoundError
                  (ascii ''[Errno 2] No such file or directory: '' @ [39] @ ascii ''model.pkl'' @ [39]))
      | Some model \<Rightarrow> Returns model)"

datatype ending = Completed | Halted | Crashed exn

record 'm request =
  shown :: "st_event list"
  env_after :: "'m env"
  train_calls :: nat
  ending :: ending

definition after_training ::
  "'m classifier \<Rightarrow> dataframe \<Rightarrow> 'm env \<Rightarrow> int \<Rightarrow> int \<Rightarrow> int \<Rightarrow> rat \<Rightarrow> 'm request" where
  "after_training clf df env month temp rain ph =
     (case train_model clf df env of
        Trained model env' \<Rightarrow>
          \<lparr>shown = prediction_block clf model df month temp rain ph, env_after = env',
           train_calls = 1, ending = Completed\<rparr>
      | TrainStopped evs \<Rightarrow> \<lparr>shown = evs, env_after = env, train_calls = 1, ending = Halted\<rparr>
      | TrainRaised e \<Rightarrow> \<lparr>shown = [], env_after = env, train_calls = 1, ending = Crashed e\<rparr>)"

definition on_button ::
  "'m classifier \<Rightarrow> dataframe \<Rightarrow> 'm env \<Rightarrow> int \<Rightarrow> int \<Rightarrow> int \<Rightarrow> rat \<Rightarrow> 'm request" where
  "on_button clf df env month temp rain ph =
     (case joblib_load env of
        Returns model \<Rightarrow>
          \<lparr>shown = prediction_block clf model df month temp rain ph, env_after = env,
           train_calls = 0, ending = Completed\<rparr>
      | Raises e \<Rightarrow>
          (case e of
             FileNotFoundError _ \<Rightarrow> after_training clf df env month temp rain ph
           | _ \<Rightarrow> \<lparr>shown = [], env_after = env, train_calls = 0, ending = Crashed e\<rparr>))"

section \<open>Reading the loader's result\<close>

text \<open>
  An attempt is skipped when it raised an exception of the \<^verbatim>\<open>except\<close> clause; the
  first attempt that is not skipped decides the result of the loader.
\<close>

definition skipped :: "(encoding \<Rightarrow> dataframe attempt) \<Rightarrow> encoding \<Rightarrow> bool" where
  "skipped rd e = (case rd e of Returns _ \<Rightarrow> False | Raises x \<Rightarrow> caught_by_loader x)"

definition decided :: "(encoding \<Rightarrow> dataframe attempt) \<Rightarrow> encoding \<Rightarrow> load_result" where
  "decided rd e = (case rd e of Returns df \<Rightarrow> Loaded (normalize_columns df) | Raises x \<Rightarrow> LoadRaised x)"


text \<open>Parentheses, and labels without leading or trailing whitespace.\<close>

definition paren :: "nat \<Rightarrow> bool" where
  "paren c = (c = 40 \<or> c = 41)"

definition trimmed :: "ustring \<Rightarrow> bool" where
  "trimmed s = (strip s = s)"


section \<open>Concrete files\<close>

text \<open>
  An ASCII file of fourteen bytes, \<^verbatim>\<open>a,b\n1,2\n3,4,5\n\<close>: its third line has one
  field too many, so the parser raises a tokenizing error under the three ASCII-compatible
  encodings; read as UTF-16 the same bytes are seven code units without comma or newline,
  a header of one column.
\<close>

definition tokenizing_error :: ustring where
  "tokenizing_error = ascii ''Error tokenizing data. C error: Expected 2 fields in line 3, saw 3''"

definition ragged_utf16 :: dataframe where
  "ragged_utf16 = \<lparr>columns = [[0x2C61, 0x0A62, 0x2C31, 0x0A32, 0x2C33, 0x2C34, 0x0A35]], rows = []\<rparr>"

fun rd_ragged :: "encoding \<Rightarrow> dataframe attempt" where
  "rd_ragged UTF16 = Returns ragged_utf16"
| "rd_ragged _ = Raises (OtherException tokenizing_error)"

text \<open>A header whose only label is an opening parenthesis, a tab, \<^verbatim>\<open>a\<close>, a closing parenthesis.\<close>

definition raw_paren_tab :: dataframe where
  "raw_paren_tab = \<lparr>columns = [[40, 9, 97, 41]], rows = []\<rparr>"

definition rd_paren_tab :: "encoding \<Rightarrow> dataframe attempt" where
  "rd_paren_tab e = Returns raw_paren_tab"

text \<open>A header whose only label is the temperature label with spaces around and inside.\<close>

definition raw_spaced :: dataframe where
  "raw_spaced = \<lparr>columns = [[0x20, 0x6E29, 0x5EA6, 0x20, 0x28, 0x2103, 0x29, 0x20]], rows = []\<rparr>"

definition rd_spaced :: "encoding \<Rightarrow> dataframe attempt" where
  "rd_spaced e = Returns raw_spaced"


definition parse_undecodable :: "encoding \<Rightarrow> unit \<Rightarrow> dataframe attempt" where
  "parse_undecodable e b = Raises (UnicodeDecodeError (ascii ''invalid start byte''))"

section \<open>Reading the trainer's and the predictor's result\<close>


text \<open>
  A missing-description report as the specification words it: the request shows one error
  and nothing else, and the error text carries the predicted label.
\<close>

definition reports_missing :: "ustring \<Rightarrow> st_event list \<Rightarrow> bool" where
  "reports_missing label evs = (case evs of [StError t] \<Rightarrow> contains label t | _ \<Rightarrow> False)"


section \<open>Concrete classifiers and datasets\<close>

text \<open>
  A classifier that stores the generator it was given and the first label of the target,
  and predicts that label for every row.
\<close>

definition first_label_clf :: "(rng \<times> cell) classifier" where
  "first_label_clf =
     \<lparr>clf_fit = (\<lambda>g depth X y.
        case rows y of
          [] \<Rightarrow> Raises (OtherException (ascii ''empty target''))
        | r # _ \<Rightarrow> Returns (g, cell_at r 0)),
      clf_predict = (\<lambda>model input. Returns (map (\<lambda>_. snd model) (rows input)))\<rparr>"

text \<open>
  A classifier that stores the feature names it was fitted on and refuses an input with
  other names.
\<close>

definition names_clf :: "(ustring list) classifier" where
  "names_clf =
     \<lparr>clf_fit = (\<lambda>g depth X y. Returns (columns X)),
      clf_predict = (\<lambda>model input.
        if columns input = model then Returns (map (\<lambda>_. NaN) (rows input))
        else Raises (OtherException (ascii ''feature names differ from those seen in fit'')))\<rparr>"

definition env0 :: "'m env" where
  "env0 = \<lparr>model_pkl = None, np_random = 0\<rparr>"

definition rice :: cell where
  "rice = Str (ascii ''Rice'')"

definition maize :: ustring where
  "maize = ascii ''Maize''"

text \<open>The dataset of the specification's scenario: one record, for rice.\<close>

definition rice_df :: dataframe where
  "rice_df =
     \<lparr>columns = [label_month, label_temp, label_rain, label_ph, label_crop, label_issues, label_yield],
      rows = [[Num 5, Num 25, Num 800, Num (13 / 2), rice, Str (ascii ''Blight''), Str (ascii ''High'')]]\<rparr>"

text \<open>The same record under the second alias of each of the four feature roles.\<close>

definition alias_columns :: "ustring list" where
  "alias_columns = [[0x6708, 0x4EFD], [0x6E29, 0x5EA6], [0x964D, 0x96E8], [0x70, 0x48, 0x503C]]"

definition alias_df :: dataframe where
  "alias_df =
     \<lparr>columns = alias_columns @ [label_crop, label_issues, label_yield],
      rows = [[Num 5, Num 25, Num 800, Num (13 / 2), rice, Str (ascii ''Blight''), Str (ascii ''High'')]]\<rparr>"

text \<open>A header with two aliases of the month role, the later alias first, and one without a crop column.\<close>

definition two_month_df :: dataframe where
  "two_month_df =
     \<lparr>columns = [[0x6708, 0x4EFD], label_month, label_temp, label_rain, label_ph, label_crop],
      rows = [[Num 6, Num 5, Num 25, Num 800, Num (13 / 2), rice]]\<rparr>"

definition no_crop_df :: dataframe where
  "no_crop_df =
     \<lparr>columns = [label_month, label_temp, label_rain, label_ph],
      rows = [[Num 5, Num 25, Num 800, Num (13 / 2)]]\<rparr>"

section \<open>Properties of the loader\<close>

subsection \<open>The loop over the encodings\<close>

lemma load_loop_skipped:
  "skipped rd e \<Longrightarrow> load_loop rd (e # es) = (e # fst (load_loop rd es), snd (load_loop rd es))"
  by (auto simp: skipped_def split: attempt.splits prod.splits)

lemma load_loop_decided:
  "\<not> skipped rd e \<Longrightarrow> load_loop rd (e # es) = ([e], decided rd e)"
  by (auto simp: skipped_def decided_def split: attempt.splits)

lemma load_loop_prefix:
  "list_all (skipped rd) pre \<Longrightarrow>
   load_loop rd (pre @ es) = (pre @ fst (load_loop rd es), snd (load_loop rd es))"
  by (induction pre) (simp_all add: load_loop_skipped del: load_loop.simps)

lemma load_loop_find:
  "load_loop rd es =
     (case find (\<lambda>e. \<not> skipped rd e) es of
        None \<Rightarrow> (es, LoadStopped [StError load_error_text])
      | Some e \<Rightarrow> (takeWhile (skipped rd) es @ [e], decided rd e))"
proof (induction es)
  case Nil
  show ?case by simp
next
  case (Cons a es)
  show ?case
  proof (cases "skipped rd a")
    case True
    then show ?thesis using Cons by (simp add: load_loop_skipped del: load_loop.simps split: option.splits)
  next
    case False
    then show ?thesis by (simp add: load_loop_decided del: load_loop.simps)
  qed
qed

lemma load_loop_Loaded:
  "snd (load_loop rd es) = Loaded df \<Longrightarrow> \<exists>e\<in>set es. \<exists>raw. rd e = Returns raw \<and> df = normalize_columns raw"
  by (induction es) (auto split: attempt.splits if_splits prod.splits)

subsection \<open>Stripping and removing characters\<close>

lemma strip_Nil [simp]: "strip [] = []"
  by (simp add: strip_def)

lemma strip_ends:
  "strip s = [] \<or> (\<not> is_space (hd (strip s)) \<and> \<not> is_space (last (strip s)))"
proof (cases "strip s = []")
  case True then show ?thesis by simp
next
  case False
  let ?t = "dropWhile is_space s"
  let ?u = "dropWhile is_space (rev ?t)"
  have u: "?u \<noteq> []" using False by (simp add: strip_def)
  then have hu: "\<not> is_space (hd ?u)" by (rule hd_dropWhile)
  have t: "?t \<noteq> []" using u by (metis dropWhile.simps(1) rev.simps(1))
  then have ht: "\<not> is_space (hd ?t)" by (rule hd_dropWhile)
  have "last (strip s) = hd ?u" using u by (simp add: strip_def last_rev)
  moreover have "hd (strip s) = last ?u" using u by (simp add: strip_def hd_rev)
  moreover have "last ?u = hd ?t"
  proof -
    have "last (rev ?t) = hd ?t" using t by (simp add: last_rev)
    moreover have "last ?u = last (rev ?t)"
      using u by (metis dropWhile_eq_Nil_conv last_appendR takeWhile_dropWhile_id)
    ultimately show ?thesis by simp
  qed
  ultimately show ?thesis using hu ht by simp
qed

lemma strip_id:
  "s = [] \<or> (\<not> is_space (hd s) \<and> \<not> is_space (last s)) \<Longrightarrow> strip s = s"
proof (cases s)
  case Nil then show ?thesis by simp
next
  case (Cons a as)
  assume "s = [] \<or> (\<not> is_space (hd s) \<and> \<not> is_space (last s))"
  with Cons have a: "\<not> is_space a" and l: "\<not> is_space (last s)" by auto
  have 1: "dropWhile is_space s = s" using a Cons by simp
  obtain b bs where r: "rev s = b # bs" using Cons by (cases "rev s") auto
  have "hd (rev s) = last s" using Cons by (simp add: hd_rev)
  with r have "b = last s" by simp
  with l have "\<not> is_space b" by simp
  then have "dropWhile is_space (b # bs) = b # bs" by simp
  with r have 2: "dropWhile is_space (rev s) = rev s" by simp
  show ?thesis by (simp add: strip_def 1 2)
qed

lemma is_space_32: "is_space 32"
  by (simp add: is_space_def)

lemma normalize_name_filter:
  "normalize_name s = filter (\<lambda>x. x \<noteq> 32 \<and> x \<noteq> 40 \<and> x \<noteq> 41) (strip s)"
  by (auto simp: normalize_name_def remove_char_def intro: filter_cong)

lemma normalize_name_free:
  "32 \<notin> set (normalize_name s) \<and> 40 \<notin> set (normalize_name s) \<and> 41 \<notin> set (normalize_name s)"
  by (simp add: normalize_name_filter)

lemma filter_keeps_ends:
  assumes "xs \<noteq> []" "P (hd xs)" "P (last xs)"
  shows "filter P xs \<noteq> [] \<and> hd (filter P xs) = hd xs \<and> last (filter P xs) = last xs"
proof -
  from assms obtain a as where xs: "xs = a # as" by (cases xs) auto
  show ?thesis
  proof (cases "as = []")
    case True then show ?thesis using xs assms by simp
  next
    case False
    then obtain bs b where as: "as = bs @ [b]" by (metis rev_exhaust)
    then show ?thesis using xs assms by simp
  qed
qed

lemma normalize_name_trimmed:
  assumes "strip s = [] \<or> (\<not> paren (hd (strip s)) \<and> \<not> paren (last (strip s)))"
  shows "strip (normalize_name s) = normalize_name s"
proof (cases "strip s = []")
  case True
  then show ?thesis by (simp add: normalize_name_filter)
next
  case False
  let ?P = "\<lambda>x::nat. x \<noteq> 32 \<and> x \<noteq> 40 \<and> x \<noteq> 41"
  from False strip_ends [of s]
  have sp: "\<not> is_space (hd (strip s))" "\<not> is_space (last (strip s))" by blast+
  have h32: "hd (strip s) \<noteq> 32" using sp(1) is_space_32 by metis
  have l32: "last (strip s) \<noteq> 32" using sp(2) is_space_32 by metis
  from assms False have np: "\<not> paren (hd (strip s))" "\<not> paren (last (strip s))" by blast+
  have ph: "?P (hd (strip s))" using h32 np(1) unfolding paren_def by blast
  have pl: "?P (last (strip s))" using l32 np(2) unfolding paren_def by blast
  from filter_keeps_ends [of "strip s" ?P, OF False ph pl]
  have "hd (normalize_name s) = hd (strip s)" "last (normalize_name s) = last (strip s)"
    unfolding normalize_name_filter by blast+
  with sp have "\<not> is_space (hd (normalize_name s)) \<and> \<not> is_space (last (normalize_name s))"
    by simp
  then show ?thesis by (intro strip_id) blast
qed

lemma normalize_name_plain_spaces:
  assumes "list_all (\<lambda>x. is_space x \<longrightarrow> x = 32) (strip s)"
  shows "strip (normalize_name s) = normalize_name s"
proof -
  have ns: "\<not> is_space x" if "x \<in> set (normalize_name s)" for x
    using that assms by (auto simp: normalize_name_filter list_all_iff)
  show ?thesis
  proof (cases "normalize_name s = []")
    case True then show ?thesis by simp
  next
    case False
    then have "hd (normalize_name s) \<in> set (normalize_name s)"
      "last (normalize_name s) \<in> set (normalize_name s)" by simp_all
    then show ?thesis using ns by (intro strip_id) blast
  qed
qed

subsection \<open>Order of the encodings\<close>



subsection \<open>Normalized labels\<close>

text \<open>
  Claim C6, as the specification states it, fails on the header \<open>raw_paren_tab\<close>: removing
  the parenthesis after stripping leaves a label that starts with a tab.
\<close>

theorem exposed_whitespace_not_trimmed:
  "snd (load_data rd_paren_tab) = Loaded \<lparr>columns = [[9, 97]], rows = []\<rparr> \<and> \<not> trimmed [9, 97]"
  by (simp add: load_data_def encodings_def rd_paren_tab_def raw_paren_tab_def normalize_columns_def
      normalize_name_def remove_char_def strip_def is_space_def trimmed_def)

text \<open>
  Claim C6, amended: every label of a loaded data frame is a raw label of the parsed file,
  stripped and then freed of spaces and parentheses; it contains no space and no
  parenthesis; and it has no leading or trailing whitespace whenever the stripped raw
  label neither starts nor ends with a parenthesis, or has no whitespace other than
  spaces.
\<close>

theorem loaded_columns_normalized:
  assumes "snd (load_data rd) = Loaded df" and "c \<in> set (columns df)"
  shows "\<exists>e raw r. e \<in> set encodings \<and> rd e = Returns raw \<and> r \<in> set (columns raw)
           \<and> c = normalize_name r \<and> 32 \<notin> set c \<and> 40 \<notin> set c \<and> 41 \<notin> set c
           \<and> ((strip r = [] \<or> (\<not> paren (hd (strip r)) \<and> \<not> paren (last (strip r)))
                \<or> list_all (\<lambda>x. is_space x \<longrightarrow> x = 32) (strip r)) \<longrightarrow> trimmed c)"
proof -
  from assms(1) obtain e raw where e: "e \<in> set encodings" "rd e = Returns raw"
    and df: "df = normalize_columns raw"
    unfolding load_data_def by (blast dest: load_loop_Loaded)
  from assms(2) df obtain r where r: "r \<in> set (columns raw)" "c = normalize_name r"
    by (auto simp: normalize_columns_def)
  have "trimmed c"
    if "strip r = [] \<or> (\<not> paren (hd (strip r)) \<and> \<not> paren (last (strip r)))
        \<or> list_all (\<lambda>x. is_space x \<longrightarrow> x = 32) (strip r)"
    using that r(2) normalize_name_trimmed [of r] normalize_name_plain_spaces [of r]
    unfolding trimmed_def by blast
  with e r normalize_name_free [of r] show ?thesis by blast
qed

theorem loaded_columns_normalized_witness:
  "snd (load_data rd_spaced) = Loaded \<lparr>columns = [[0x6E29, 0x5EA6, 0x2103]], rows = []\<rparr>
   \<and> (\<exists>e raw r. e \<in> set encodings \<and> rd_spaced e = Returns raw \<and> r \<in> set (columns raw)
           \<and> [0x6E29, 0x5EA6, 0x2103] = normalize_name r
           \<and> ((strip r = [] \<or> (\<not> paren (hd (strip r)) \<and> \<not> paren (last (strip r)))
                \<or> list_all (\<lambda>x. is_space x \<longrightarrow> x = 32) (strip r)) \<longrightarrow> trimmed [0x6E29, 0x5EA6, 0x2103]))"
proof -
  have l: "snd (load_data rd_spaced) = Loaded \<lparr>columns = [[0x6E29, 0x5EA6, 0x2103]], rows = []\<rparr>"
    by (simp add: load_data_def encodings_def rd_spaced_def raw_spaced_def normalize_columns_def
        normalize_name_def remove_char_def strip_def is_space_def)
  have c: "[0x6E29, 0x5EA6, 0x2103] \<in> set (columns \<lparr>columns = [[0x6E29, 0x5EA6, 0x2103 :: nat]], rows = []\<rparr>)"
    by simp
  show ?thesis using l loaded_columns_normalized [OF l c] by blast
qed

subsection \<open>Undecodable and missing files\<close>




text \<open>
  Claim C10: a missing file raises file-not-found at every attempt, so all four encodings
  are tried and the run ends in the one load-failure message, the same result as for a
  file that no encoding decodes; an exception that is neither a decode error nor
  file-not-found leaves the loop at once, no later encoding is tried, and the caller shows
  it as a load failure and stops.
\<close>

theorem missing_file_like_decode_failure:
  "load_data (pd_read_csv parse None) = (encodings, LoadStopped [StError load_error_text])
   \<and> ((\<forall>e\<in>set encodings. \<exists>m. parse e b = Raises (UnicodeDecodeError m)) \<longrightarrow>
        load_data (pd_read_csv parse (Some b)) = load_data (pd_read_csv parse None))
   \<and> (encodings = pre @ e # post \<and> list_all (skipped rd) pre \<and> rd e = Raises x
        \<and> \<not> caught_by_loader x \<longrightarrow>
        load_data rd = (pre @ [e], LoadRaised x)
        \<and> load_section rd = Stopped [StError (load_failed_prefix @ str_exn x)])"
proof -
  have none: "load_data (pd_read_csv parse None) = (encodings, LoadStopped [StError load_error_text])"
    for parse :: "encoding \<Rightarrow> 'a \<Rightarrow> dataframe attempt"
    by (simp add: load_data_def encodings_def pd_read_csv_def)
  have some: "load_data (pd_read_csv parse (Some b)) = (encodings, LoadStopped [StError load_error_text])"
    if "\<forall>e\<in>set encodings. \<exists>m. parse e b = Raises (UnicodeDecodeError m)"
  proof -
    have "\<forall>e\<in>set encodings. skipped (pd_read_csv parse (Some b)) e"
      using that by (auto simp: skipped_def pd_read_csv_def)
    then have "find (\<lambda>e. \<not> skipped (pd_read_csv parse (Some b)) e) encodings = None"
      by (simp add: find_None_iff)
    then show ?thesis unfolding load_data_def by (simp add: load_loop_find)
  qed
  have other: "load_data rd = (pre @ [e], LoadRaised x)"
    if "encodings = pre @ e # post" "list_all (skipped rd) pre" "rd e = Raises x"
       "\<not> caught_by_loader x"
  proof -
    have "\<not> skipped rd e" using that(3,4) by (simp add: skipped_def)
    then have "load_loop rd (e # post) = ([e], LoadRaised x)"
      using that(3) by (simp add: load_loop_decided decided_def del: load_loop.simps)
    then show ?thesis
      unfolding load_data_def that(1) using load_loop_prefix [OF that(2), of "e # post"]
      by simp
  qed
  show ?thesis using none some other by (auto simp: load_section_def)
qed

theorem missing_file_like_decode_failure_witness:
  "load_data (pd_read_csv parse_undecodable (Some ())) = load_data (pd_read_csv parse_undecodable None)
   \<and> load_data rd_ragged = ([UTF8], LoadRaised (OtherException tokenizing_error))
   \<and> load_section rd_ragged = Stopped [StError (load_failed_prefix @ tokenizing_error)]"
proof -
  have a: "\<forall>e\<in>set encodings. \<exists>m. parse_undecodable e () = Raises (UnicodeDecodeError m)"
    by (simp add: parse_undecodable_def)
  have b: "encodings = [] @ UTF8 # [GBK, UTF16, UTF8_SIG] \<and> list_all (skipped rd_ragged) []
           \<and> rd_ragged UTF8 = Raises (OtherException tokenizing_error)
           \<and> \<not> caught_by_loader (OtherException tokenizing_error)"
    by (simp add: encodings_def)
  show ?thesis
    using a b
      missing_file_like_decode_failure [of parse_undecodable "()" "[]" UTF8 "[GBK, UTF16, UTF8_SIG]"
        rd_ragged "OtherException tokenizing_error"]
    by simp
qed


section \<open>Properties of column resolution and training\<close>

subsection \<open>The two loops of the resolver\<close>

lemma first_present_Some:
  "first_present cols names = Some n \<longleftrightarrow>
     (\<exists>pre post. names = pre @ n # post \<and> n \<in> set cols \<and> set pre \<inter> set cols = {})"
proof (induction names)
  case Nil
  show ?case by simp
next
  case (Cons a names)
  show ?case
  proof (cases "a \<in> set cols")
    case True
    have "(\<exists>pre post. a # names = pre @ n # post \<and> n \<in> set cols \<and> set pre \<inter> set cols = {}) \<longleftrightarrow> a = n"
    proof
      assume "\<exists>pre post. a # names = pre @ n # post \<and> n \<in> set cols \<and> set pre \<inter> set cols = {}"
      then obtain pre post where p: "a # names = pre @ n # post" "set pre \<inter> set cols = {}" by blast
      show "a = n"
      proof (cases pre)
        case Nil then show ?thesis using p by simp
      next
        case (Cons b bs) then show ?thesis using p True by auto
      qed
    next
      assume "a = n"
      then have "a # names = [] @ n # names \<and> n \<in> set cols \<and> set [] \<inter> set cols = {}"
        using True by simp
      then show "\<exists>pre post. a # names = pre @ n # post \<and> n \<in> set cols \<and> set pre \<inter> set cols = {}"
        by blast
    qed
    then show ?thesis using True by simp
  next
    case False
    have "(\<exists>pre post. a # names = pre @ n # post \<and> n \<in> set cols \<and> set pre \<inter> set cols = {})
          \<longleftrightarrow> (\<exists>pre post. names = pre @ n # post \<and> n \<in> set cols \<and> set pre \<inter> set cols = {})"
    proof
      assume "\<exists>pre post. a # names = pre @ n # post \<and> n \<in> set cols \<and> set pre \<inter> set cols = {}"
      then obtain pre post where p: "a # names = pre @ n # post" "n \<in> set cols" "set pre \<inter> set cols = {}"
        by blast
      show "\<exists>pre post. names = pre @ n # post \<and> n \<in> set cols \<and> set pre \<inter> set cols = {}"
      proof (cases pre)
        case Nil then show ?thesis using p False by simp
      next
        case (Cons b bs) then show ?thesis using p by auto
      qed
    next
      assume "\<exists>pre post. names = pre @ n # post \<and> n \<in> set cols \<and> set pre \<inter> set cols = {}"
      then obtain pre post where p: "names = pre @ n # post" "n \<in> set cols" "set pre \<inter> set cols = {}"
        by blast
      then have "a # names = (a # pre) @ n # post \<and> n \<in> set cols \<and> set (a # pre) \<inter> set cols = {}"
        using False by simp
      then show "\<exists>pre post. a # names = pre @ n # post \<and> n \<in> set cols \<and> set pre \<inter> set cols = {}"
        by blast
    qed
    then show ?thesis using False Cons by simp
  qed
qed

lemma first_present_None:
  "first_present cols names = None \<longleftrightarrow> set names \<inter> set cols = {}"
  by (induction names) auto

lemma select_loop_Inr:
  "distinct (map fst cm) \<Longrightarrow> select_loop cols cm sel0 = Inr sel \<Longrightarrow>
   (\<forall>(r, names)\<in>set cm. sel r = first_present cols names \<and> sel r \<noteq> None)
   \<and> (\<forall>r. r \<notin> fst ` set cm \<longrightarrow> sel r = sel0 r)"
proof (induction cm arbitrary: sel0)
  case Nil
  then show ?case by simp
next
  case (Cons a cm)
  obtain r names where a: "a = (r, names)" by (cases a)
  from Cons.prems(2) a obtain n where n: "first_present cols names = Some n"
    and rest: "select_loop cols cm (sel0(r \<mapsto> n)) = Inr sel"
    by (auto split: option.splits)
  from Cons.prems(1) a have d: "distinct (map fst cm)" and nr: "r \<notin> fst ` set cm" by auto
  from Cons.IH [OF d rest]
  have ih: "\<forall>(r, names)\<in>set cm. sel r = first_present cols names \<and> sel r \<noteq> None"
    "\<forall>r'. r' \<notin> fst ` set cm \<longrightarrow> sel r' = (sel0(r \<mapsto> n)) r'" by auto
  from ih(2) nr have "sel r = Some n" by simp
  with ih n a show ?case by auto
qed

lemma select_loop_Inl:
  "select_loop cols cm sel0 = Inl evs \<Longrightarrow>
   \<exists>done r names rest. cm = done @ (r, names) # rest
     \<and> (\<forall>(r', names')\<in>set done. first_present cols names' \<noteq> None)
     \<and> first_present cols names = None \<and> evs = [StError (missing_column_text names)]"
proof (induction cm arbitrary: sel0)
  case Nil
  then show ?case by simp
next
  case (Cons a cm)
  obtain r names where a: "a = (r, names)" by (cases a)
  show ?case
  proof (cases "first_present cols names")
    case None
    with Cons.prems a have "evs = [StError (missing_column_text names)]" by simp
    with None a have "a # cm = [] @ (r, names) # cm
      \<and> (\<forall>(r', names')\<in>set []. first_present cols names' \<noteq> None)
      \<and> first_present cols names = None \<and> evs = [StError (missing_column_text names)]" by simp
    then show ?thesis by blast
  next
    case (Some n)
    with Cons.prems a have "select_loop cols cm (sel0(r \<mapsto> n)) = Inl evs" by simp
    from Cons.IH [OF this] obtain dn r2 names2 rest where
      p: "cm = dn @ (r2, names2) # rest" "\<forall>(r', names')\<in>set dn. first_present cols names' \<noteq> None"
         "first_present cols names2 = None" "evs = [StError (missing_column_text names2)]" by blast
    with Some a have "a # cm = (a # dn) @ (r2, names2) # rest
      \<and> (\<forall>(r', names')\<in>set (a # dn). first_present cols names' \<noteq> None)
      \<and> first_present cols names2 = None \<and> evs = [StError (missing_column_text names2)]" by simp
    then show ?thesis by blast
  qed
qed

lemma select_loop_fails:
  "(r, names) \<in> set cm \<Longrightarrow> first_present cols names = None \<Longrightarrow> \<exists>evs. select_loop cols cm sel0 = Inl evs"
  by (induction cm arbitrary: sel0) (auto split: option.splits)

lemma distinct_col_mapping: "distinct (map fst col_mapping)"
  by (simp add: col_mapping_def)

lemma train_model_stops:
  assumes "(r, names) \<in> set col_mapping" and "set names \<inter> set (columns df) = {}"
  shows "\<exists>evs. train_model clf df env = TrainStopped evs"
proof -
  from assms(2) have "first_present (columns df) names = None" by (simp add: first_present_None)
  from select_loop_fails [OF assms(1) this]
  obtain evs where "select_loop (columns df) col_mapping Map.empty = Inl evs" by blast
  then show ?thesis by (simp add: train_model_def)
qed

lemmas label_defs = label_month_def label_temp_def label_rain_def label_ph_def label_crop_def
  label_issues_def label_yield_def

text \<open>
  Claim C2: for every dataset, a successful resolution binds every role to the first alias
  of its list that is among the columns (every alias before it is absent, so of two
  present aliases the earlier wins); a failed resolution stops at the first role, in the
  order of the table, none of whose aliases is present, with the message listing that
  role's aliases; and whenever some role has no alias among the columns, training stops
  without a model: the classifier is not fitted and the model file is left as it was.
\<close>

theorem resolution_first_alias_fail_fast:
  "(select_loop (columns df) col_mapping Map.empty = Inr sel \<longrightarrow>
      (\<forall>(r, names)\<in>set col_mapping. \<exists>pre n post.
          names = pre @ n # post \<and> sel r = Some n \<and> n \<in> set (columns df)
          \<and> set pre \<inter> set (columns df) = {}))
   \<and> (select_loop (columns df) col_mapping Map.empty = Inl evs \<longrightarrow>
      (\<exists>done r names rest. col_mapping = done @ (r, names) # rest
          \<and> (\<forall>(r', names')\<in>set done. set names' \<inter> set (columns df) \<noteq> {})
          \<and> set names \<inter> set (columns df) = {}
          \<and> evs = [StError (missing_column_text names)]
          \<and> train_model clf df env = TrainStopped evs))
   \<and> ((r, names) \<in> set col_mapping \<and> set names \<inter> set (columns df) = {} \<longrightarrow>
      (\<exists>evs. train_model clf df env = TrainStopped evs
          \<and> after_training clf df env month temp rain ph =
              \<lparr>shown = evs, env_after = env, train_calls = 1, ending = Halted\<rparr>))"
proof (intro conjI impI)
  assume ok: "select_loop (columns df) col_mapping Map.empty = Inr sel"
  show "\<forall>(r, names)\<in>set col_mapping. \<exists>pre n post.
          names = pre @ n # post \<and> sel r = Some n \<and> n \<in> set (columns df)
          \<and> set pre \<inter> set (columns df) = {}"
  proof (clarify)
    fix r names assume m: "(r, names) \<in> set col_mapping"
    from select_loop_Inr [OF distinct_col_mapping ok] m
    have "sel r = first_present (columns df) names" "sel r \<noteq> None" by auto
    then obtain n where n: "sel r = Some n" "first_present (columns df) names = Some n" by auto
    from n(2) obtain pre post where "names = pre @ n # post" "n \<in> set (columns df)"
      "set pre \<inter> set (columns df) = {}" unfolding first_present_Some by blast
    with n(1) show "\<exists>pre n post. names = pre @ n # post \<and> sel r = Some n \<and> n \<in> set (columns df)
          \<and> set pre \<inter> set (columns df) = {}" by blast
  qed
next
  assume bad: "select_loop (columns df) col_mapping Map.empty = Inl evs"
  from select_loop_Inl [OF bad] obtain dn r names rest where
    p: "col_mapping = dn @ (r, names) # rest"
       "\<forall>(r', names')\<in>set dn. first_present (columns df) names' \<noteq> None"
       "first_present (columns df) names = None" "evs = [StError (missing_column_text names)]"
    by blast
  have t: "train_model clf df env = TrainStopped evs" using bad by (simp add: train_model_def)
  from p(2) have "\<forall>(r', names')\<in>set dn. set names' \<inter> set (columns df) \<noteq> {}"
    by (simp add: first_present_None split_beta)
  with p(1,3,4) t show "\<exists>done r names rest. col_mapping = done @ (r, names) # rest
          \<and> (\<forall>(r', names')\<in>set done. set names' \<inter> set (columns df) \<noteq> {})
          \<and> set names \<inter> set (columns df) = {}
          \<and> evs = [StError (missing_column_text names)]
          \<and> train_model clf df env = TrainStopped evs"
    unfolding first_present_None by blast
next
  assume "(r, names) \<in> set col_mapping \<and> set names \<inter> set (columns df) = {}"
  then obtain evs where "train_model clf df env = TrainStopped evs"
    using train_model_stops by blast
  then show "\<exists>evs. train_model clf df env = TrainStopped evs
          \<and> after_training clf df env month temp rain ph =
              \<lparr>shown = evs, env_after = env, train_calls = 1, ending = Halted\<rparr>"
    by (simp add: after_training_def)
qed

theorem resolution_first_alias_fail_fast_witness:
  "(case select_loop (columns two_month_df) col_mapping Map.empty of
      Inr sel \<Rightarrow> sel Month | Inl _ \<Rightarrow> None) = Some label_month
   \<and> train_model first_label_clf no_crop_df env0 =
       TrainStopped [StError (missing_column_text [label_crop, ascii ''crop''])]
   \<and> after_training first_label_clf no_crop_df env0 5 25 800 (13 / 2) =
       \<lparr>shown = [StError (missing_column_text [label_crop, ascii ''crop''])], env_after = env0,
        train_calls = 1, ending = Halted\<rparr>"
proof -
  have a: "(Crop, [label_crop, ascii ''crop'']) \<in> set col_mapping
           \<and> set [label_crop, ascii ''crop''] \<inter> set (columns no_crop_df) = {}"
    by (simp add: col_mapping_def no_crop_df_def label_defs ascii_def)
  have b: "select_loop (columns no_crop_df) col_mapping Map.empty =
           Inl [StError (missing_column_text [label_crop, ascii ''crop''])]"
    by (simp add: col_mapping_def no_crop_df_def label_defs ascii_def)
  have c: "(case select_loop (columns two_month_df) col_mapping Map.empty of
      Inr sel \<Rightarrow> sel Month | Inl _ \<Rightarrow> None) = Some label_month"
    by (simp add: col_mapping_def two_month_df_def label_defs ascii_def)
  from resolution_first_alias_fail_fast
    [of no_crop_df sel "[StError (missing_column_text [label_crop, ascii ''crop''])]"
      first_label_clf env0 Crop "[label_crop, ascii ''crop'']" 5 25 800 "13 / 2"] a b
  have "train_model first_label_clf no_crop_df env0 =
       TrainStopped [StError (missing_column_text [label_crop, ascii ''crop''])]"
    "\<exists>evs. train_model first_label_clf no_crop_df env0 = TrainStopped evs
          \<and> after_training first_label_clf no_crop_df env0 5 25 800 (13 / 2) =
              \<lparr>shown = evs, env_after = env0, train_calls = 1, ending = Halted\<rparr>"
    by blast+
  with c show ?thesis by auto
qed

subsection \<open>Feature columns at training and at prediction time\<close>

text \<open>
  Claim C1 does not hold of the script: on the dataset \<open>alias_df\<close>, whose four feature
  columns carry the second alias of their role, the classifier is fitted on those four
  columns, while the input row of a prediction is always labelled with the first aliases,
  written out in line 90.
\<close>

theorem alias_dataset_columns_differ:
  "train_model names_clf alias_df env0 = Trained alias_columns (env0\<lparr>model_pkl := Some alias_columns\<rparr>)
   \<and> columns (input_data 5 25 800 (13 / 2)) = input_columns
   \<and> input_columns \<noteq> alias_columns"
proof -
  have s: "select_loop (columns alias_df) col_mapping Map.empty =
        Inr [Month \<mapsto> [0x6708, 0x4EFD], Temp \<mapsto> [0x6E29, 0x5EA6], Rain \<mapsto> [0x964D, 0x96E8],
             Ph \<mapsto> [0x70, 0x48, 0x503C], Crop \<mapsto> label_crop]"
    by (simp add: col_mapping_def alias_df_def alias_columns_def label_defs ascii_def)
  have f: "feature_frame alias_df [Month \<mapsto> [0x6708, 0x4EFD], Temp \<mapsto> [0x6E29, 0x5EA6], Rain \<mapsto> [0x964D, 0x96E8],
             Ph \<mapsto> [0x70, 0x48, 0x503C], Crop \<mapsto> label_crop] =
           Returns \<lparr>columns = alias_columns, rows = [[Num 5, Num 25, Num 800, Num (13 / 2)]]\<rparr>"
    by (simp add: feature_frame_def lookup_key_def select_columns_def positions_def alias_df_def
        alias_columns_def label_defs cell_at_def)
  have t: "target_frame alias_df [Month \<mapsto> [0x6708, 0x4EFD], Temp \<mapsto> [0x6E29, 0x5EA6], Rain \<mapsto> [0x964D, 0x96E8],
             Ph \<mapsto> [0x70, 0x48, 0x503C], Crop \<mapsto> label_crop] =
           Returns \<lparr>columns = [label_crop], rows = [[rice]]\<rparr>"
    by (simp add: target_frame_def lookup_key_def select_columns_def positions_def alias_df_def
        alias_columns_def label_defs cell_at_def)
  have "train_model names_clf alias_df env0 = Trained alias_columns (env0\<lparr>model_pkl := Some alias_columns\<rparr>)"
    by (simp add: train_model_def s f t names_clf_def)
  moreover have "input_columns \<noteq> alias_columns"
    by (simp add: input_columns_def alias_columns_def label_defs)
  ultimately show ?thesis by (simp add: input_data_def)
qed

subsection \<open>Reproducible training\<close>




section \<open>Properties of the recommendation request\<close>

subsection \<open>A predicted label without a record\<close>

lemma crop_info_of_missing:
  assumes "get_series df label_crop = Returns labels"
      and "\<not> list_ex (\<lambda>l. cell_eq l crop) labels"
  shows "crop_info_of df crop = Raises (IndexError (ascii ''single positional indexer is out-of-bounds''))"
proof -
  have "filter (\<lambda>(l, r). cell_eq l crop) (zip labels (rows df)) = []"
    using assms(2) by (auto simp: filter_empty_conv list_ex_iff dest: set_zip_leftD)
  then show ?thesis using assms(1) by (simp add: crop_info_of_def)
qed

lemma maize_events:
  "prediction_block first_label_clf (Seeded 42, Str maize) rice_df 5 25 800 (13 / 2) =
     [StSuccess [Lit recommend_prefix, Val (Str maize)],
      StError (predict_failed_prefix @ ascii ''single positional indexer is out-of-bounds'')]"
  by (simp add: prediction_block_def predict_crop_def first_label_clf_def input_data_def
      crop_info_of_def get_series_def positions_def rice_df_def label_month_def label_temp_def
      label_rain_def label_ph_def label_crop_def label_issues_def label_yield_def cell_at_def
      cell_eq_def rice_def maize_def ascii_def failed_def)

text \<open>
  Claim C4, as the specification states it, fails on the dataset of the rice scenario
  with a model that predicts maize: the recommendation is shown first, and the error that
  follows is the text of the index error, in which the label does not occur.
\<close>

theorem maize_not_reported:
  "prediction_block first_label_clf (Seeded 42, Str maize) rice_df 5 25 800 (13 / 2) =
     [StSuccess [Lit recommend_prefix, Val (Str maize)],
      StError (predict_failed_prefix @ ascii ''single positional indexer is out-of-bounds'')]
   \<and> \<not> contains maize (predict_failed_prefix @ ascii ''single positional indexer is out-of-bounds'')
   \<and> \<not> reports_missing maize
         (prediction_block first_label_clf (Seeded 42, Str maize) rice_df 5 25 800 (13 / 2))"
proof -
  have "\<not> contains maize (predict_failed_prefix @ ascii ''single positional indexer is out-of-bounds'')"
    by (simp add: maize_def predict_failed_prefix_def ascii_def)
  then show ?thesis by (simp add: maize_events reports_missing_def)
qed

text \<open>
  Claim C4, amended: in a dataset with pairwise distinct column labels, when the
  classifier predicts a label that no record of the crop column equals, the request first shows the recommendation of that label and then one
  error, the prefix of line 116 followed by the text of the index error raised by the
  lookup of line 97; no description is shown. The error text is the same for every such
  label.
\<close>

theorem missing_description_generic_error:
  assumes "distinct (columns df)"
      and "predict_crop clf model (input_data month temp rain ph) = Returns crop"
      and "get_series df label_crop = Returns labels"
      and "\<not> list_ex (\<lambda>l. cell_eq l crop) labels"
  shows "prediction_block clf model df month temp rain ph =
           [StSuccess [Lit recommend_prefix, Val crop],
            StError (predict_failed_prefix @ ascii ''single positional indexer is out-of-bounds'')]"
  using assms(2) crop_info_of_missing [OF assms(3,4)]
  by (simp add: prediction_block_def failed_def)

theorem missing_description_generic_error_witness:
  "predict_crop first_label_clf (Seeded 42, Str maize) (input_data 5 25 800 (13 / 2)) = Returns (Str maize)
   \<and> get_series rice_df label_crop = Returns [rice]
   \<and> \<not> list_ex (\<lambda>l. cell_eq l (Str maize)) [rice]
   \<and> prediction_block first_label_clf (Seeded 42, Str maize) rice_df 5 25 800 (13 / 2) =
           [StSuccess [Lit recommend_prefix, Val (Str maize)],
            StError (predict_failed_prefix @ ascii ''single positional indexer is out-of-bounds'')]"
proof -
  have a: "predict_crop first_label_clf (Seeded 42, Str maize) (input_data 5 25 800 (13 / 2)) = Returns (Str maize)"
    by (simp add: predict_crop_def first_label_clf_def input_data_def)
  have b: "get_series rice_df label_crop = Returns [rice]"
    by (simp add: get_series_def positions_def rice_df_def label_month_def label_temp_def
        label_rain_def label_ph_def label_crop_def label_issues_def label_yield_def cell_at_def)
  have c: "\<not> list_ex (\<lambda>l. cell_eq l (Str maize)) [rice]"
    by (simp add: cell_eq_def rice_def maize_def ascii_def)
  have d: "distinct (columns rice_df)"
    by (simp add: rice_df_def label_defs)
  show ?thesis using a b c missing_description_generic_error [OF d a b c] by simp
qed

subsection \<open>Training on demand\<close>

lemma train_rice:
  "train_model first_label_clf rice_df env0 =
     Trained (Seeded 42, rice) (env0\<lparr>model_pkl := Some (Seeded 42, rice)\<rparr>)"
proof -
  let ?sel = "[Month \<mapsto> label_month, Temp \<mapsto> label_temp, Rain \<mapsto> label_rain, Ph \<mapsto> label_ph,
               Crop \<mapsto> label_crop]"
  have s: "select_loop (columns rice_df) col_mapping Map.empty = Inr ?sel"
    by (simp add: col_mapping_def rice_df_def label_defs ascii_def)
  have f: "feature_frame rice_df ?sel =
           Returns \<lparr>columns = input_columns, rows = [[Num 5, Num 25, Num 800, Num (13 / 2)]]\<rparr>"
    by (simp add: feature_frame_def lookup_key_def select_columns_def positions_def rice_df_def
        input_columns_def label_defs cell_at_def)
  have t: "target_frame rice_df ?sel = Returns \<lparr>columns = [label_crop], rows = [[rice]]\<rparr>"
    by (simp add: target_frame_def lookup_key_def select_columns_def positions_def rice_df_def
        label_defs cell_at_def)
  show ?thesis
    by (simp add: train_model_def s f t first_label_clf_def rng_of_def tree_hyper_def
        cell_at_def)
qed

text \<open>
  Claim C7: with a model file present the request predicts with that model, the trainer is
  not called and the state outside the script is unchanged; with no model file the trainer
  is called once, and if it returns a model, that model makes the prediction and is in the
  model file afterwards, so that the next request does not train.
\<close>

theorem persisted_model_not_retrained:
  "(model_pkl env = Some m \<longrightarrow>
      on_button clf df env month temp rain ph =
        \<lparr>shown = prediction_block clf m df month temp rain ph, env_after = env,
         train_calls = 0, ending = Completed\<rparr>)
   \<and> (model_pkl env = None \<longrightarrow>
      on_button clf df env month temp rain ph = after_training clf df env month temp rain ph
      \<and> train_calls (on_button clf df env month temp rain ph) = 1)
   \<and> (model_pkl env = None \<and> train_model clf df env = Trained m' env' \<longrightarrow>
      model_pkl (env_after (on_button clf df env month temp rain ph)) = Some m'
      \<and> shown (on_button clf df env month temp rain ph) = prediction_block clf m' df month temp rain ph
      \<and> train_calls (on_button clf df (env_after (on_button clf df env month temp rain ph))
            month2 temp2 rain2 ph2) = 0)"
proof (intro conjI impI)
  assume "model_pkl env = Some m"
  then show "on_button clf df env month temp rain ph =
        \<lparr>shown = prediction_block clf m df month temp rain ph, env_after = env,
         train_calls = 0, ending = Completed\<rparr>"
    by (simp add: on_button_def joblib_load_def)
next
  assume n: "model_pkl env = None"
  then show "on_button clf df env month temp rain ph = after_training clf df env month temp rain ph"
    by (simp add: on_button_def joblib_load_def)
  then show "train_calls (on_button clf df env month temp rain ph) = 1"
    by (simp add: after_training_def split: train_result.splits)
next
  assume a: "model_pkl env = None \<and> train_model clf df env = Trained m' env'"
  then have e: "env' = env\<lparr>model_pkl := Some m'\<rparr>"
    by (auto simp: train_model_def split: sum.splits attempt.splits)
  from a have o: "on_button clf df env month temp rain ph =
      \<lparr>shown = prediction_block clf m' df month temp rain ph, env_after = env',
       train_calls = 1, ending = Completed\<rparr>"
    by (simp add: on_button_def joblib_load_def after_training_def)
  show "model_pkl (env_after (on_button clf df env month temp rain ph)) = Some m'"
    by (simp add: o e)
  show "shown (on_button clf df env month temp rain ph) = prediction_block clf m' df month temp rain ph"
    by (simp add: o)
  have ea: "env_after (on_button clf df env month temp rain ph) = env\<lparr>model_pkl := Some m'\<rparr>"
    by (simp add: o e)
  have "train_calls (on_button clf df (env\<lparr>model_pkl := Some m'\<rparr>) month2 temp2 rain2 ph2) = 0"
    by (simp add: on_button_def joblib_load_def)
  then show "train_calls (on_button clf df (env_after (on_button clf df env month temp rain ph))
            month2 temp2 rain2 ph2) = 0"
    unfolding ea .
qed

theorem persisted_model_not_retrained_witness:
  "train_calls (on_button first_label_clf rice_df
       \<lparr>model_pkl = Some (Seeded 7, Str maize), np_random = 0\<rparr> 5 25 800 (13 / 2)) = 0
   \<and> env_after (on_button first_label_clf rice_df
       \<lparr>model_pkl = Some (Seeded 7, Str maize), np_random = 0\<rparr> 5 25 800 (13 / 2))
     = \<lparr>model_pkl = Some (Seeded 7, Str maize), np_random = 0\<rparr>
   \<and> train_calls (on_button first_label_clf rice_df env0 5 25 800 (13 / 2)) = 1
   \<and> model_pkl (env_after (on_button first_label_clf rice_df env0 5 25 800 (13 / 2)))
     = Some (Seeded 42, rice)
   \<and> train_calls (on_button first_label_clf rice_df
        (env_after (on_button first_label_clf rice_df env0 5 25 800 (13 / 2))) 1 0 0 3) = 0"
proof -
  let ?e = "\<lparr>model_pkl = Some (Seeded 7, Str maize), np_random = 0\<rparr> :: (rng \<times> cell) env"
  have a: "model_pkl ?e = Some (Seeded 7, Str maize)" by simp
  have b: "model_pkl (env0 :: (rng \<times> cell) env) = None" by (simp add: env0_def)
  note t = persisted_model_not_retrained
    [of ?e "(Seeded 7, Str maize)" first_label_clf rice_df 5 25 800 "13 / 2"]
  note u = persisted_model_not_retrained
    [of env0 _ first_label_clf rice_df 5 25 800 "13 / 2" "(Seeded 42, rice)"
      "env0\<lparr>model_pkl := Some (Seeded 42, rice)\<rparr>" 1 0 0 3]
  from t a have 1: "on_button first_label_clf rice_df ?e 5 25 800 (13 / 2) =
        \<lparr>shown = prediction_block first_label_clf (Seeded 7, Str maize) rice_df 5 25 800 (13 / 2),
         env_after = ?e, train_calls = 0, ending = Completed\<rparr>" by blast
  from u b train_rice have 2:
    "train_calls (on_button first_label_clf rice_df env0 5 25 800 (13 / 2)) = 1"
    "model_pkl (env_after (on_button first_label_clf rice_df env0 5 25 800 (13 / 2)))
       = Some (Seeded 42, rice)"
    "train_calls (on_button first_label_clf rice_df
        (env_after (on_button first_label_clf rice_df env0 5 25 800 (13 / 2))) 1 0 0 3) = 0"
    by blast+
  show ?thesis using 2 by (simp add: 1)
qed

subsection \<open>Inputs at the ends of the ranges\<close>








end
